theory Spec2Isabelle
  imports Complex_Main
begin

section \<open>The main process of WinBoat (src/main/main.ts)\<close>

text \<open>
  The file registers handlers on the application, on the main window, on the tray and on
  the inter-process channel. Each handler is embedded as a function on an explicit state
  \<open>main_state\<close> that holds the three module variables (\<open>mainWindow\<close>, \<open>tray\<close>,
  \<open>isQuitting\<close>), the settings store, and the objects the file constructs (windows, trays,
  message boxes, console lines). What a handler reads from outside the program (the file
  system, the single-instance lock, the platform) is the record \<open>env\<close>.
\<close>

subsection \<open>Values read from the config file\<close>

type_synonym number = rat

text \<open>What \<open>JSON.parse\<close> returns. An object keeps its members in source order.\<close>

datatype json =
    JNull
  | JBool bool
  | JNumber number
  | JString string
  | JArray "json list"
  | JObject "(string \<times> json) list"

text \<open>A JavaScript value that may be \<open>undefined\<close>: \<open>None\<close> is \<open>undefined\<close>.\<close>

type_synonym jsval = "json option"

datatype js_error = TypeError | SyntaxError | SystemError

text \<open>Truthiness, as \<open>||\<close> tests it.\<close>

fun truthy :: "json \<Rightarrow> bool" where
  "truthy JNull = False"
| "truthy (JBool b) = b"
| "truthy (JNumber n) = (n \<noteq> 0)"
| "truthy (JString s) = (s \<noteq> [])"
| "truthy (JArray xs) = True"
| "truthy (JObject kvs) = True"

text \<open>
  Property access \<open>v.k\<close> for the two keys the file reads, \<open>recentApps\<close> and \<open>name\<close>:
  no built-in prototype of a JSON value defines either, so only an object's own members
  answer (of a repeated key \<open>JSON.parse\<close> keeps the last), every other value gives
  \<open>undefined\<close>, and \<open>null\<close> throws a TypeError.
\<close>

fun get_prop :: "json \<Rightarrow> string \<Rightarrow> js_error + jsval" where
  "get_prop JNull k = Inl TypeError"
| "get_prop (JObject kvs) k = Inr (map_of (rev kvs) k)"
| "get_prop v k = Inr None"

text \<open>\<open>v || []\<close>\<close>

definition or_empty :: "jsval \<Rightarrow> json" where
  "or_empty v = (case v of None \<Rightarrow> JArray [] | Some j \<Rightarrow> if truthy j then j else JArray [])"

subsection \<open>Menu templates\<close>

text \<open>
  The closures of the template, as data: what a click does is decided when the click
  happens (\<open>run_click\<close> below), since each closure reads \<open>mainWindow\<close> then.
\<close>

datatype click_action =
    LaunchAppByName jsval
  | Navigate string
  | ContainerAction string
  | QuitApp

text \<open>A template entry; a field the literal leaves out is \<open>None\<close>.\<close>

datatype menu_item =
  MenuItem (label: jsval) (enabled: "bool option") (item_type: "string option")
    (click: "click_action option") (submenu: "menu_item list option")

text \<open>The callback of \<open>recentApps.slice(0, 10).map\<close> (lines 78-84): \<open>app.name\<close> throws on \<open>null\<close>.\<close>

definition recent_item :: "json \<Rightarrow> js_error + menu_item" where
  "recent_item a =
     (case get_prop a ''name'' of
        Inl err \<Rightarrow> Inl err
      | Inr n \<Rightarrow> Inr (MenuItem n None None (Some (LaunchAppByName n)) None))"

fun map_items :: "json list \<Rightarrow> js_error + menu_item list" where
  "map_items [] = Inr []"
| "map_items (a # as) =
     (case recent_item a of
        Inl err \<Rightarrow> Inl err
      | Inr m \<Rightarrow> (case map_items as of Inl err \<Rightarrow> Inl err | Inr ms \<Rightarrow> Inr (m # ms)))"

text \<open>
  \<open>recentApps.slice(0, 10).map(...)\<close>: only an array has both methods. A string has
  \<open>slice\<close> but its result has no \<open>map\<close>; any other value has no callable \<open>slice\<close>.
\<close>

fun recentAppsMenu :: "json \<Rightarrow> js_error + menu_item list" where
  "recentAppsMenu (JArray apps) = map_items (take 10 apps)"
| "recentAppsMenu v = Inl TypeError"

definition separator_item :: menu_item where
  "separator_item = MenuItem None None (Some ''separator'') None None"

definition no_recent_apps :: menu_item where
  "no_recent_apps = MenuItem (Some (JString ''No recent apps'')) (Some False) None None None"

definition recent_apps_entry :: "menu_item list \<Rightarrow> menu_item" where
  "recent_apps_entry recent =
     MenuItem (Some (JString ''Recent Apps'')) None None None
       (Some (if length recent > 0 then recent else [no_recent_apps]))"

text \<open>The template of lines 86-119. \<open>Menu.buildFromTemplate\<close> is the menu of these entries.\<close>

definition menu_template :: "menu_item list \<Rightarrow> menu_item list" where
  "menu_template recent =
     [ MenuItem (Some (JString ''WinBoat'')) (Some False) None None None,
       separator_item,
       MenuItem (Some (JString ''Open Apps'')) None None (Some (Navigate ''/apps'')) None,
       MenuItem (Some (JString ''Open Configuration'')) None None (Some (Navigate ''/config'')) None,
       separator_item,
       recent_apps_entry recent,
       separator_item,
       MenuItem (Some (JString ''Run Container'')) None None (Some (ContainerAction ''start'')) None,
       MenuItem (Some (JString ''Pause Container'')) None None (Some (ContainerAction ''pause'')) None,
       separator_item,
       MenuItem (Some (JString ''Quit'')) None None (Some QuitApp) None ]"

subsection \<open>The environment\<close>

text \<open>A path is the list of its segments; \<open>join\<close> appends two.\<close>

type_synonym path = "string list"

definition join :: "path \<Rightarrow> string \<Rightarrow> string \<Rightarrow> path" where
  "join base a b = base @ [a, b]"

text \<open>What \<open>JSON.parse(fs.readFileSync(CONFIG_PATH, "utf-8"))\<close> does when it is run.\<close>

datatype config_read = ReadFails | ParseFails | ParsesTo json

record rectangle =
  r_width :: number
  r_height :: number
  r_x :: number
  r_y :: number

record env =
  isPackaged :: bool
  resourcesPath :: path
  appPath :: path
  homedir :: path
  files :: "path list"
  config_read :: config_read
  lock :: bool
  platform :: string
  NODE_ENV :: "string option"
  argv2 :: "string option"
  placed_bounds :: rectangle

text \<open>
  \<open>files\<close> lists the paths for which \<open>fs.existsSync\<close> is true, \<open>lock\<close> is what
  \<open>app.requestSingleInstanceLock()\<close> returns, and \<open>placed_bounds\<close> are the bounds the
  windowing system gives a window when it is constructed. \<open>argv2\<close> is
  \<open>process.argv[2]\<close>, \<open>None\<close> when the process has no such argument.
\<close>

definition existsSync :: "env \<Rightarrow> path \<Rightarrow> bool" where
  "existsSync e p = (p \<in> set (files e))"

definition CONFIG_PATH :: "env \<Rightarrow> path" where
  "CONFIG_PATH e = join (homedir e) ''.winboat'' ''winboat.config.json''"

subsection \<open>The settings store\<close>

definition WINDOW_MIN_WIDTH :: number where
  "WINDOW_MIN_WIDTH = 1280"

definition WINDOW_MIN_HEIGHT :: number where
  "WINDOW_MIN_HEIGHT = 800"

text \<open>
  What the file holds under the two keys of \<open>SchemaType\<close>; \<open>None\<close> is an entry never
  written, and a member is \<open>None\<close> where the close handler passed \<open>undefined\<close>.
\<close>

record dimensions_t =
  width :: "number option"
  height :: "number option"

record position_t =
  pos_x :: "number option"
  pos_y :: "number option"

record SchemaType =
  dimensions :: "dimensions_t option"
  position :: "position_t option"

text \<open>
  Modelled from the spec: the electron-store library (\<open>windowStore.get\<close> and
  \<open>windowStore.set\<close>) is not under src/. The spec describes a record "stored and retrieved
  from a local settings file" with "no invariants beyond default values": \<open>get\<close> returns
  the saved member, and the default the schema of lines 26-57 declares for it when nothing
  is saved; \<open>set\<close> replaces the entry.
\<close>

definition get_dimensions_width :: "SchemaType \<Rightarrow> number" where
  "get_dimensions_width st =
     (case dimensions st of
        None \<Rightarrow> WINDOW_MIN_WIDTH
      | Some d \<Rightarrow> (case width d of None \<Rightarrow> WINDOW_MIN_WIDTH | Some v \<Rightarrow> v))"

definition get_dimensions_height :: "SchemaType \<Rightarrow> number" where
  "get_dimensions_height st =
     (case dimensions st of
        None \<Rightarrow> WINDOW_MIN_HEIGHT
      | Some d \<Rightarrow> (case height d of None \<Rightarrow> WINDOW_MIN_HEIGHT | Some v \<Rightarrow> v))"

definition get_position_x :: "SchemaType \<Rightarrow> number" where
  "get_position_x st =
     (case position st of
        None \<Rightarrow> 0
      | Some p \<Rightarrow> (case pos_x p of None \<Rightarrow> 0 | Some v \<Rightarrow> v))"

definition get_position_y :: "SchemaType \<Rightarrow> number" where
  "get_position_y st =
     (case position st of
        None \<Rightarrow> 0
      | Some p \<Rightarrow> (case pos_y p of None \<Rightarrow> 0 | Some v \<Rightarrow> v))"

definition set_dimensions :: "dimensions_t \<Rightarrow> SchemaType \<Rightarrow> SchemaType" where
  "set_dimensions d st = st\<lparr>dimensions := Some d\<rparr>"

definition set_position :: "position_t \<Rightarrow> SchemaType \<Rightarrow> SchemaType" where
  "set_position p st = st\<lparr>position := Some p\<rparr>"

definition empty_store :: SchemaType where
  "empty_store = \<lparr>dimensions = None, position = None\<rparr>"

subsection \<open>Windows, trays and the state of the process\<close>

record window_options =
  minWidth :: number
  minHeight :: number
  opt_width :: number
  opt_height :: number
  opt_x :: number
  opt_y :: number
  transparent :: bool
  frame :: bool
  nodeIntegration :: bool
  contextIsolation :: bool

datatype load_target = LoadURL string | LoadFile path

record browser_window =
  options :: window_options
  bounds :: rectangle
  visible :: bool
  focused :: bool
  destroyed :: bool
  sent :: "(string \<times> jsval) list"
  remote_enabled :: bool
  loaded :: "load_target option"

record native_image =
  image_path :: path
  image_size :: "(nat \<times> nat) option"

record tray_obj =
  icon :: native_image
  contextMenu :: "menu_item list option"
  toolTip :: "string option"
  click_handler :: bool

record message_box =
  box_type :: string
  buttons :: "string list"
  title :: string
  message :: string

datatype log_entry = ConsoleError string js_error | ConsoleLog jsval

text \<open>
  \<open>windows\<close> and \<open>trays\<close> hold every \<open>BrowserWindow\<close> and every \<open>Tray\<close> the process has
  constructed, in order; the variables \<open>mainWindow\<close> and \<open>tray\<close> are references into them
  (\<open>None\<close> is \<open>null\<close>). \<open>exit_called\<close> and \<open>quit_called\<close> record calls of \<open>app.exit()\<close>
  and \<open>app.quit()\<close>; \<open>uncaught\<close> collects the errors a handler let escape.
\<close>

record main_state =
  windowStore :: SchemaType
  windows :: "browser_window list"
  trays :: "tray_obj list"
  mainWindow :: "nat option"
  tray :: "nat option"
  isQuitting :: bool
  ready :: bool
  dialogs :: "message_box list"
  console :: "log_entry list"
  quit_called :: bool
  exit_called :: bool
  uncaught :: "js_error list"

definition init_state :: "SchemaType \<Rightarrow> main_state" where
  "init_state st =
     \<lparr> windowStore = st, windows = [], trays = [], mainWindow = None, tray = None,
       isQuitting = False, ready = False, dialogs = [], console = [],
       quit_called = False, exit_called = False, uncaught = [] \<rparr>"

definition update_at :: "nat \<Rightarrow> ('a \<Rightarrow> 'a) \<Rightarrow> 'a list \<Rightarrow> 'a list" where
  "update_at i f xs = (if i < length xs then xs[i := f (xs ! i)] else xs)"

definition deref :: "'a list \<Rightarrow> nat option \<Rightarrow> 'a option" where
  "deref xs r = (case r of None \<Rightarrow> None | Some i \<Rightarrow> if i < length xs then Some (xs ! i) else None)"

text \<open>\<open>mainWindow?.m()\<close> and \<open>tray.m()\<close> for a method \<open>m\<close> that changes the object.\<close>

definition with_mainWindow :: "(browser_window \<Rightarrow> browser_window) \<Rightarrow> main_state \<Rightarrow> main_state" where
  "with_mainWindow f s =
     (case mainWindow s of None \<Rightarrow> s | Some i \<Rightarrow> s\<lparr>windows := update_at i f (windows s)\<rparr>)"

definition with_tray :: "(tray_obj \<Rightarrow> tray_obj) \<Rightarrow> main_state \<Rightarrow> main_state" where
  "with_tray f s =
     (case tray s of None \<Rightarrow> s | Some i \<Rightarrow> s\<lparr>trays := update_at i f (trays s)\<rparr>)"

definition show_window :: "browser_window \<Rightarrow> browser_window" where
  "show_window w = w\<lparr>visible := True\<rparr>"

definition hide_window :: "browser_window \<Rightarrow> browser_window" where
  "hide_window w = w\<lparr>visible := False\<rparr>"

definition focus_window :: "browser_window \<Rightarrow> browser_window" where
  "focus_window w = w\<lparr>focused := True\<rparr>"

definition send :: "string \<Rightarrow> jsval \<Rightarrow> browser_window \<Rightarrow> browser_window" where
  "send channel arg w = w\<lparr>sent := sent w @ [(channel, arg)]\<rparr>"

definition app_quit :: "main_state \<Rightarrow> main_state" where
  "app_quit s = s\<lparr>quit_called := True\<rparr>"

text \<open>
  \<open>app.exit()\<close> is declared to return \<open>void\<close>: the call is recorded and the caller goes on
  with its next statement.
\<close>

definition app_exit :: "main_state \<Rightarrow> main_state" where
  "app_exit s = s\<lparr>exit_called := True\<rparr>"

definition showMessageBoxSync :: "message_box \<Rightarrow> main_state \<Rightarrow> main_state" where
  "showMessageBoxSync b s = s\<lparr>dialogs := dialogs s @ [b]\<rparr>"

subsection \<open>updateTrayMenu (lines 65-122)\<close>

text \<open>The body of the \<open>try\<close> block, lines 70-73: the value of \<open>recentApps\<close>, or what is thrown.\<close>

definition read_recentApps :: "env \<Rightarrow> js_error + json" where
  "read_recentApps e =
     (if existsSync e (CONFIG_PATH e) then
        (case config_read e of
           ReadFails \<Rightarrow> Inl SystemError
         | ParseFails \<Rightarrow> Inl SyntaxError
         | ParsesTo config \<Rightarrow>
             (case get_prop config ''recentApps'' of
                Inl err \<Rightarrow> Inl err
              | Inr v \<Rightarrow> Inr (or_empty v)))
      else Inr (JArray []))"

text \<open>
  The result is the error that leaves the function, if any, and the state it leaves behind.
  The \<open>catch\<close> of lines 74-76 logs and keeps \<open>recentApps = []\<close>; lines 78-84 stand outside
  the \<open>try\<close>, so what they throw leaves the function before the menu is built.
\<close>

definition updateTrayMenu :: "env \<Rightarrow> main_state \<Rightarrow> js_error option \<times> main_state" where
  "updateTrayMenu e s =
     (case tray s of
        None \<Rightarrow> (None, s)
      | Some t \<Rightarrow>
          (let (recentApps, s1) =
                 (case read_recentApps e of
                    Inl err \<Rightarrow>
                      (JArray [],
                       s\<lparr>console := console s @ [ConsoleError ''Failed to read config for tray'' err]\<rparr>)
                  | Inr v \<Rightarrow> (v, s))
           in case recentAppsMenu recentApps of
                Inl err \<Rightarrow> (Some err, s1)
              | Inr recent \<Rightarrow>
                  (None, with_tray (\<lambda>t. t\<lparr>contextMenu := Some (menu_template recent)\<rparr>) s1)))"

subsection \<open>createTray (lines 124-151)\<close>

definition icon_path :: "env \<Rightarrow> string \<Rightarrow> path" where
  "icon_path e name =
     (if isPackaged e then join (resourcesPath e) ''icons'' name
      else join (appPath e) ''icons'' name)"

definition createFromPath :: "path \<Rightarrow> native_image" where
  "createFromPath p = \<lparr>image_path = p, image_size = None\<rparr>"

definition resize :: "nat \<Rightarrow> nat \<Rightarrow> native_image \<Rightarrow> native_image" where
  "resize w h img = img\<lparr>image_size := Some (w, h)\<rparr>"

definition new_Tray :: "native_image \<Rightarrow> tray_obj" where
  "new_Tray img = \<lparr>icon = img, contextMenu = None, toolTip = None, click_handler = False\<rparr>"

text \<open>Lines 126-135: the PNG, or the SVG when there is no PNG.\<close>

definition chosen_icon_path :: "env \<Rightarrow> path" where
  "chosen_icon_path e =
     (if \<not> existsSync e (icon_path e ''winboat_logo.png'')
      then icon_path e ''winboat_logo.svg''
      else icon_path e ''winboat_logo.png'')"

text \<open>Lines 137-139: the tray is constructed and assigned before the menu is built.\<close>

definition construct_tray :: "env \<Rightarrow> main_state \<Rightarrow> main_state" where
  "construct_tray e s =
     s\<lparr> trays := trays s @ [new_Tray (resize 16 16 (createFromPath (chosen_icon_path e)))],
       tray := Some (length (trays s)) \<rparr>"

text \<open>
  Lines 141-150: an error of \<open>updateTrayMenu\<close> leaves \<open>createTray\<close> before the click
  handler and the tooltip are set.
\<close>

definition createTray :: "env \<Rightarrow> main_state \<Rightarrow> js_error option \<times> main_state" where
  "createTray e s =
     (case updateTrayMenu e (construct_tray e s) of
        (Some err, s2) \<Rightarrow> (Some err, s2)
      | (None, s2) \<Rightarrow>
          (None, with_tray (\<lambda>t. t\<lparr>toolTip := Some ''WinBoat''\<rparr>)
                   (with_tray (\<lambda>t. t\<lparr>click_handler := True\<rparr>) s2)))"

text \<open>The handler of lines 143-148.\<close>

definition tray_click :: "main_state \<Rightarrow> main_state" where
  "tray_click s = with_mainWindow focus_window (with_mainWindow show_window s)"

subsection \<open>createWindow (lines 153-209)\<close>

definition second_instance_box :: message_box where
  "second_instance_box =
     \<lparr> box_type = ''error'', buttons = [''Close''], title = ''WinBoat'',
       message = ''An instance of WinBoat is already running.'' @ [CHR 0x0A, CHR 0x09]
         @ ''Multiple Instances are not allowed.'' \<rparr>"

definition stored_options :: "SchemaType \<Rightarrow> window_options" where
  "stored_options st =
     \<lparr> minWidth = WINDOW_MIN_WIDTH, minHeight = WINDOW_MIN_HEIGHT,
       opt_width = get_dimensions_width st, opt_height = get_dimensions_height st,
       opt_x = get_position_x st, opt_y = get_position_y st,
       transparent = False, frame = False,
       nodeIntegration = True, contextIsolation = False \<rparr>"

definition new_BrowserWindow :: "env \<Rightarrow> window_options \<Rightarrow> browser_window" where
  "new_BrowserWindow e opts =
     \<lparr> options = opts, bounds = placed_bounds e, visible = True, focused = False,
       destroyed = False, sent = [], remote_enabled = False, loaded = None \<rparr>"

definition load_renderer :: "env \<Rightarrow> browser_window \<Rightarrow> browser_window" where
  "load_renderer e w =
     (if NODE_ENV e = Some ''development''
      then w\<lparr>loaded := Some (LoadURL (''http://localhost:'' @
             (case argv2 e of None \<Rightarrow> ''undefined'' | Some port \<Rightarrow> port)))\<rparr>
      else w\<lparr>loaded := Some (LoadFile (join (appPath e) ''renderer'' ''index.html''))\<rparr>)"

text \<open>
  Lines 154-163 have no \<open>return\<close> and no \<open>else\<close>: after the message box and
  \<open>app.exit()\<close> the function goes on to line 165.
\<close>

definition createWindow :: "env \<Rightarrow> main_state \<Rightarrow> main_state" where
  "createWindow e s =
     (let s1 = (if \<not> lock e then app_exit (showMessageBoxSync second_instance_box s) else s);
          w = new_BrowserWindow e (stored_options (windowStore s1));
          s2 = s1\<lparr>windows := windows s1 @ [w], mainWindow := Some (length (windows s1))\<rparr>;
          s3 = with_mainWindow (\<lambda>w. w\<lparr>remote_enabled := True\<rparr>) s2
      in with_mainWindow (load_renderer e) s3)"

text \<open>
  The close handler of lines 181-199. The flag returned is \<open>event.defaultPrevented\<close>.
  \<open>bounds?.width\<close> is \<open>undefined\<close> when \<open>mainWindow\<close> is \<open>null\<close>.
\<close>

definition getBounds :: "main_state \<Rightarrow> rectangle option" where
  "getBounds s = map_option bounds (deref (windows s) (mainWindow s))"

definition on_close :: "main_state \<Rightarrow> bool \<times> main_state" where
  "on_close s =
     (if \<not> isQuitting s then (True, with_mainWindow hide_window s)
      else
        (let b = getBounds s;
             st1 = set_dimensions
                     \<lparr>width = map_option r_width b, height = map_option r_height b\<rparr> (windowStore s);
             st2 = set_position \<lparr>pos_x = map_option r_x b, pos_y = map_option r_y b\<rparr> st1
         in (False, s\<lparr>windowStore := st2\<rparr>)))"

subsection \<open>The header callback (lines 214-228)\<close>

definition CSP :: "string list" where
  "CSP =
     [ ''script-src 'self' 'unsafe-eval' 'wasm-unsafe-eval' 'unsafe-inline'' @ [CHR 0x27],
       ''worker-src 'self' blob:'',
       ''media-src 'self' blob:'',
       ''font-src 'self' 'unsafe-inline' https://fonts.gstatic.com;'',
       ''style-src 'self' 'unsafe-inline' https://fonts.googleapis.com'' ]"

text \<open>
  \<open>details.responseHeaders\<close> is a record from header names to value lists, or
  \<open>undefined\<close>; spreading \<open>undefined\<close> adds nothing.
\<close>

definition onHeadersReceived ::
  "(string \<rightharpoonup> string list) option \<Rightarrow> (string \<rightharpoonup> string list)" where
  "onHeadersReceived responseHeaders =
     (case responseHeaders of None \<Rightarrow> Map.empty | Some h \<Rightarrow> h)
       (''Content-Security-Policy'' \<mapsto> CSP)"

subsection \<open>Menu clicks (the closures of lines 80-83 and 91-117)\<close>

definition run_click :: "click_action \<Rightarrow> main_state \<Rightarrow> main_state" where
  "run_click c s =
     (case c of
        LaunchAppByName n \<Rightarrow>
          with_mainWindow show_window (with_mainWindow (send ''launch-app-by-name'' n) s)
      | Navigate p \<Rightarrow>
          with_mainWindow show_window (with_mainWindow (send ''navigate'' (Some (JString p))) s)
      | ContainerAction a \<Rightarrow>
          with_mainWindow (send ''container-action'' (Some (JString a))) s
      | QuitApp \<Rightarrow> app_quit (s\<lparr>isQuitting := True\<rparr>))"

text \<open>The clicks a menu offers: those of its entries and of their submenus.\<close>

definition own_click :: "menu_item \<Rightarrow> click_action list" where
  "own_click m = (case click m of None \<Rightarrow> [] | Some c \<Rightarrow> [c])"

definition item_clicks :: "menu_item \<Rightarrow> click_action list" where
  "item_clicks m =
     own_click m @ (case submenu m of None \<Rightarrow> [] | Some ms \<Rightarrow> concat (map own_click ms))"

definition offered_clicks :: "main_state \<Rightarrow> click_action list" where
  "offered_clicks s =
     (case deref (trays s) (tray s) of
        None \<Rightarrow> []
      | Some t \<Rightarrow> (case contextMenu t of None \<Rightarrow> [] | Some ms \<Rightarrow> concat (map item_clicks ms)))"

subsection \<open>Events and their handlers (lines 181, 211-261)\<close>

datatype event =
    AppReady
  | Activate
  | WindowAllClosed
  | SecondInstance
  | IpcMessage jsval
  | IpcUpdateTray
  | IpcInitTray
  | WindowClose nat
  | TrayClick
  | MenuClick click_action
  | WindowPlaced nat rectangle

text \<open>An error that leaves a handler is recorded; the process goes on.\<close>

definition handled :: "js_error option \<times> main_state \<Rightarrow> main_state" where
  "handled r =
     (case r of (None, s) \<Rightarrow> s | (Some err, s) \<Rightarrow> s\<lparr>uncaught := uncaught s @ [err]\<rparr>)"

definition live_windows :: "main_state \<Rightarrow> browser_window list" where
  "live_windows s = filter (\<lambda>w. \<not> destroyed w) (windows s)"

text \<open>
  A close event reaches a window that exists and is not destroyed; unless the handler
  prevents the default, the window is then destroyed.
\<close>

definition close_event :: "nat \<Rightarrow> main_state \<Rightarrow> main_state" where
  "close_event i s =
     (if i < length (windows s) \<and> \<not> destroyed (windows s ! i) then
        (case on_close s of
           (True, s1) \<Rightarrow> s1
         | (False, s1) \<Rightarrow> s1\<lparr>windows := update_at i (\<lambda>w. w\<lparr>destroyed := True\<rparr>) (windows s1)\<rparr>)
      else s)"

text \<open>
  \<open>WindowPlaced\<close> is the user or the window manager moving or resizing a window; the file
  has no handler for it. \<open>MenuClick\<close> is a click on an entry of the tray's current menu,
  \<open>TrayClick\<close> a click on a tray whose handler is registered.
\<close>

fun dispatch :: "env \<Rightarrow> event \<Rightarrow> main_state \<Rightarrow> main_state" where
  "dispatch e AppReady s = (if ready s then s else (createWindow e s)\<lparr>ready := True\<rparr>)"
| "dispatch e Activate s =
     (if ready s \<and> length (live_windows s) = 0 then createWindow e s else s)"
| "dispatch e WindowAllClosed s = (if platform e \<noteq> ''darwin'' then app_quit s else s)"
| "dispatch e SecondInstance s = with_mainWindow focus_window s"
| "dispatch e (IpcMessage m) s = s\<lparr>console := console s @ [ConsoleLog m]\<rparr>"
| "dispatch e IpcUpdateTray s = handled (updateTrayMenu e s)"
| "dispatch e IpcInitTray s = (if tray s = None then handled (createTray e s) else s)"
| "dispatch e (WindowClose i) s = close_event i s"
| "dispatch e TrayClick s =
     (case deref (trays s) (tray s) of
        None \<Rightarrow> s
      | Some t \<Rightarrow> if click_handler t then tray_click s else s)"
| "dispatch e (MenuClick c) s = (if c \<in> set (offered_clicks s) then run_click c s else s)"
| "dispatch e (WindowPlaced i r) s =
     (if i < length (windows s) \<and> \<not> destroyed (windows s ! i)
      then s\<lparr>windows := update_at i (\<lambda>w. w\<lparr>bounds := r\<rparr>) (windows s)\<rparr> else s)"

text \<open>A run of the process: the events in order, each with the environment it meets.\<close>

fun run :: "main_state \<Rightarrow> (env \<times> event) list \<Rightarrow> main_state" where
  "run s [] = s"
| "run s ((e, ev) # rest) = run (dispatch e ev s) rest"

subsection \<open>Reading the state\<close>

definition tray_menu :: "main_state \<Rightarrow> menu_item list option" where
  "tray_menu s = (case deref (trays s) (tray s) of None \<Rightarrow> None | Some t \<Rightarrow> contextMenu t)"

text \<open>The submenu of the entry labelled "Recent Apps" in the tray's menu.\<close>

definition recent_submenu :: "main_state \<Rightarrow> menu_item list option" where
  "recent_submenu s =
     (case tray_menu s of
        None \<Rightarrow> None
      | Some ms \<Rightarrow>
          (case find (\<lambda>m. label m = Some (JString ''Recent Apps'')) ms of
             None \<Rightarrow> None
           | Some m \<Rightarrow> submenu m))"

text \<open>\<open>app.name\<close> where the access does not throw, and the entry lines 78-84 build from it.\<close>

definition app_name :: "json \<Rightarrow> jsval" where
  "app_name a = (case get_prop a ''name'' of Inl err \<Rightarrow> None | Inr n \<Rightarrow> n)"

definition launch_entry :: "json \<Rightarrow> menu_item" where
  "launch_entry a = MenuItem (app_name a) None None (Some (LaunchAppByName (app_name a))) None"

definition main_window :: "main_state \<Rightarrow> browser_window option" where
  "main_window s = deref (windows s) (mainWindow s)"

text \<open>The geometry a window's bounds are saved as.\<close>

definition saved_geometry :: "rectangle \<Rightarrow> SchemaType" where
  "saved_geometry b =
     \<lparr> dimensions = Some \<lparr>width = Some (r_width b), height = Some (r_height b)\<rparr>,
       position = Some \<lparr>pos_x = Some (r_x b), pos_y = Some (r_y b)\<rparr> \<rparr>"

text \<open>The image the tray was constructed from.\<close>

definition tray_icon :: "main_state \<Rightarrow> native_image option" where
  "tray_icon s = map_option icon (deref (trays s) (tray s))"

text \<open>The tray variable is null and no tray was constructed, or it refers to the only one.\<close>

definition tray_inv :: "main_state \<Rightarrow> bool" where
  "tray_inv s =
     ((tray s = None \<and> length (trays s) = 0) \<or> (tray s = Some 0 \<and> length (trays s) = 1))"

subsection \<open>A concrete environment and concrete runs\<close>

text \<open>
  An unpackaged Linux installation whose config file exists and does not parse, and
  which has no icon file.
\<close>

definition home_env :: env where
  "home_env =
     \<lparr> isPackaged = False, resourcesPath = [''opt'', ''winboat'', ''resources''],
       appPath = [''opt'', ''winboat'', ''app''], homedir = [''home'', ''user''],
       files = [[''home'', ''user'', ''.winboat'', ''winboat.config.json'']],
       config_read = ParseFails, lock = True, platform = ''linux'', NODE_ENV = None,
       argv2 = None, placed_bounds = \<lparr>r_width = 1280, r_height = 800, r_x = 0, r_y = 0\<rparr> \<rparr>"

text \<open>The state at line 141 of the first \<open>createTray\<close>: the tray exists and has no menu yet.\<close>

definition fresh_tray_state :: main_state where
  "fresh_tray_state = construct_tray home_env (init_state empty_store)"

text \<open>The window was opened and then moved and resized; nobody chose Quit.\<close>

definition moved_state :: main_state where
  "moved_state =
     run (init_state empty_store)
       [(home_env, AppReady),
        (home_env, WindowPlaced 0 \<lparr>r_width = 1400, r_height = 900, r_x = 10, r_y = 20\<rparr>)]"

text \<open>The window was opened, the tray created, the window moved, and Quit chosen.\<close>

definition quitting_trace :: "(env \<times> event) list" where
  "quitting_trace =
     [(home_env, AppReady),
      (home_env, IpcInitTray),
      (home_env, WindowPlaced 0 \<lparr>r_width = 1400, r_height = 900, r_x = 10, r_y = 20\<rparr>),
      (home_env, MenuClick QuitApp)]"

section \<open>Properties\<close>

subsection \<open>The three ways out of updateTrayMenu\<close>

lemma tray_menu_with_tray:
  "tray s = Some t \<Longrightarrow> t < length (trays s) \<Longrightarrow>
   tray_menu (with_tray (\<lambda>t. t\<lparr>contextMenu := Some m\<rparr>) s) = Some m"
  by (simp add: tray_menu_def with_tray_def deref_def update_at_def)

lemma recent_submenu_template:
  "tray_menu s = Some (menu_template recent) \<Longrightarrow>
   recent_submenu s = Some (if length recent > 0 then recent else [no_recent_apps])"
  by (simp add: recent_submenu_def menu_template_def separator_item_def recent_apps_entry_def)

lemma updateTrayMenu_caught:
  "tray s = Some t \<Longrightarrow> read_recentApps e = Inl err \<Longrightarrow>
   updateTrayMenu e s =
     (None, with_tray (\<lambda>t. t\<lparr>contextMenu := Some (menu_template [])\<rparr>)
              (s\<lparr>console := console s @ [ConsoleError ''Failed to read config for tray'' err]\<rparr>))"
  by (simp add: updateTrayMenu_def)

lemma updateTrayMenu_built:
  "tray s = Some t \<Longrightarrow> read_recentApps e = Inr v \<Longrightarrow> recentAppsMenu v = Inr recent \<Longrightarrow>
   updateTrayMenu e s =
     (None, with_tray (\<lambda>t. t\<lparr>contextMenu := Some (menu_template recent)\<rparr>) s)"
  by (simp add: updateTrayMenu_def)

lemma updateTrayMenu_thrown:
  "tray s = Some t \<Longrightarrow> read_recentApps e = Inr v \<Longrightarrow> recentAppsMenu v = Inl err \<Longrightarrow>
   updateTrayMenu e s = (Some err, s)"
  by (simp add: updateTrayMenu_def)

lemma recent_item_not_null: "a \<noteq> JNull \<Longrightarrow> recent_item a = Inr (launch_entry a)"
  by (cases a) (simp_all add: recent_item_def launch_entry_def app_name_def)

lemma map_items_not_null: "JNull \<notin> set xs \<Longrightarrow> map_items xs = Inr (map launch_entry xs)"
  by (induction xs) (auto simp: recent_item_not_null)

lemma map_items_null: "JNull \<in> set xs \<Longrightarrow> map_items xs = Inl TypeError"
proof (induction xs)
  case Nil
  then show ?case by simp
next
  case (Cons a xs)
  show ?case
  proof (cases "a = JNull")
    case True
    then show ?thesis by (simp add: recent_item_def)
  next
    case False
    with Cons have "map_items xs = Inl TypeError" by simp
    with False show ?thesis by (simp add: recent_item_not_null)
  qed
qed

lemma updateTrayMenu_rethrows:
  assumes "tray s = Some t" and "read_recentApps e = Inr v"
    and "\<forall>apps. v = JArray apps \<longrightarrow> JNull \<in> set (take 10 apps)"
  shows "updateTrayMenu e s = (Some TypeError, s)"
proof -
  have "recentAppsMenu v = Inl TypeError"
    using assms(3) by (cases v) (simp_all add: map_items_null)
  from updateTrayMenu_thrown [OF assms(1,2) this] show ?thesis .
qed

subsection \<open>What each step leaves unchanged\<close>

lemma length_update_at [simp]: "length (update_at i f xs) = length xs"
  by (simp add: update_at_def)

lemma with_tray_frame [simp]:
  "windowStore (with_tray f s) = windowStore s"
  "windows (with_tray f s) = windows s"
  "mainWindow (with_tray f s) = mainWindow s"
  "tray (with_tray f s) = tray s"
  "isQuitting (with_tray f s) = isQuitting s"
  "ready (with_tray f s) = ready s"
  "dialogs (with_tray f s) = dialogs s"
  "console (with_tray f s) = console s"
  "quit_called (with_tray f s) = quit_called s"
  "exit_called (with_tray f s) = exit_called s"
  "uncaught (with_tray f s) = uncaught s"
  "length (trays (with_tray f s)) = length (trays s)"
  by (simp_all add: with_tray_def split: option.splits)

lemma with_mainWindow_frame [simp]:
  "windowStore (with_mainWindow f s) = windowStore s"
  "trays (with_mainWindow f s) = trays s"
  "mainWindow (with_mainWindow f s) = mainWindow s"
  "tray (with_mainWindow f s) = tray s"
  "isQuitting (with_mainWindow f s) = isQuitting s"
  "ready (with_mainWindow f s) = ready s"
  "dialogs (with_mainWindow f s) = dialogs s"
  "console (with_mainWindow f s) = console s"
  "quit_called (with_mainWindow f s) = quit_called s"
  "exit_called (with_mainWindow f s) = exit_called s"
  "uncaught (with_mainWindow f s) = uncaught s"
  "length (windows (with_mainWindow f s)) = length (windows s)"
  by (simp_all add: with_mainWindow_def split: option.splits)

lemma main_window_createWindow:
  "main_window (createWindow e s) =
     Some (load_renderer e ((new_BrowserWindow e (stored_options (windowStore s)))\<lparr>remote_enabled := True\<rparr>))"
  by (simp add: createWindow_def Let_def with_mainWindow_def app_exit_def showMessageBoxSync_def
      main_window_def deref_def update_at_def nth_append)

lemma read_recentApps_cases:
  "read_recentApps e =
     (if \<not> existsSync e (CONFIG_PATH e) then Inr (JArray [])
      else case config_read e of
             ReadFails \<Rightarrow> Inl SystemError
           | ParseFails \<Rightarrow> Inl SyntaxError
           | ParsesTo cfg \<Rightarrow>
               (case get_prop cfg ''recentApps'' of Inl err \<Rightarrow> Inl err | Inr v \<Rightarrow> Inr (or_empty v)))"
  by (simp add: read_recentApps_def)

lemma tray_menu_caught:
  assumes "tray s = Some t" and "t < length (trays s)" and "read_recentApps e = Inl err"
  shows "fst (updateTrayMenu e s) = None"
    and "tray_menu (snd (updateTrayMenu e s)) = Some (menu_template [])"
    and "console (snd (updateTrayMenu e s)) =
           console s @ [ConsoleError ''Failed to read config for tray'' err]"
  using assms
  by (simp_all add: updateTrayMenu_caught tray_menu_with_tray)

lemma tray_menu_built:
  assumes "tray s = Some t" and "t < length (trays s)"
    and "read_recentApps e = Inr (JArray apps)" and "JNull \<notin> set (take 10 apps)"
  shows "fst (updateTrayMenu e s) = None"
    and "tray_menu (snd (updateTrayMenu e s)) = Some (menu_template (map launch_entry (take 10 apps)))"
    and "console (snd (updateTrayMenu e s)) = console s"
proof -
  have "recentAppsMenu (JArray apps) = Inr (map launch_entry (take 10 apps))"
    using assms(4) by (simp add: map_items_not_null)
  from updateTrayMenu_built [OF assms(1) assms(3) this]
  show "fst (updateTrayMenu e s) = None"
    and "tray_menu (snd (updateTrayMenu e s)) = Some (menu_template (map launch_entry (take 10 apps)))"
    and "console (snd (updateTrayMenu e s)) = console s"
    using assms(1,2) by (simp_all add: tray_menu_with_tray)
qed

lemma deref_update_at:
  "deref (update_at i f xs) r =
     (case deref xs r of None \<Rightarrow> None | Some x \<Rightarrow> Some (if r = Some i then f x else x))"
  by (auto simp: deref_def update_at_def split: option.splits)

lemma tray_icon_with_tray:
  "(\<And>x. icon (f x) = icon x) \<Longrightarrow> tray_icon (with_tray f s) = tray_icon s"
  by (auto simp: tray_icon_def with_tray_def deref_update_at split: option.splits)

lemma tray_icon_console [simp]: "tray_icon (s\<lparr>console := c\<rparr>) = tray_icon s"
  by (simp add: tray_icon_def)

lemma updateTrayMenu_frame [simp]:
  "windowStore (snd (updateTrayMenu e s)) = windowStore s"
  "windows (snd (updateTrayMenu e s)) = windows s"
  "mainWindow (snd (updateTrayMenu e s)) = mainWindow s"
  "tray (snd (updateTrayMenu e s)) = tray s"
  "isQuitting (snd (updateTrayMenu e s)) = isQuitting s"
  "ready (snd (updateTrayMenu e s)) = ready s"
  "dialogs (snd (updateTrayMenu e s)) = dialogs s"
  "quit_called (snd (updateTrayMenu e s)) = quit_called s"
  "exit_called (snd (updateTrayMenu e s)) = exit_called s"
  "uncaught (snd (updateTrayMenu e s)) = uncaught s"
  "length (trays (snd (updateTrayMenu e s))) = length (trays s)"
  by (simp_all add: updateTrayMenu_def Let_def split: option.splits sum.splits prod.splits)

lemma updateTrayMenu_icon [simp]: "tray_icon (snd (updateTrayMenu e s)) = tray_icon s"
  by (simp add: updateTrayMenu_def Let_def tray_icon_with_tray split: option.splits sum.splits prod.splits)

lemma construct_tray_frame [simp]:
  "windowStore (construct_tray e s) = windowStore s"
  "windows (construct_tray e s) = windows s"
  "mainWindow (construct_tray e s) = mainWindow s"
  "tray (construct_tray e s) = Some (length (trays s))"
  "isQuitting (construct_tray e s) = isQuitting s"
  "ready (construct_tray e s) = ready s"
  "dialogs (construct_tray e s) = dialogs s"
  "console (construct_tray e s) = console s"
  "quit_called (construct_tray e s) = quit_called s"
  "exit_called (construct_tray e s) = exit_called s"
  "uncaught (construct_tray e s) = uncaught s"
  "length (trays (construct_tray e s)) = Suc (length (trays s))"
  by (simp_all add: construct_tray_def)

lemma createTray_snd:
  "snd (createTray e s) =
     (if fst (updateTrayMenu e (construct_tray e s)) = None
      then with_tray (\<lambda>t. t\<lparr>toolTip := Some ''WinBoat''\<rparr>)
             (with_tray (\<lambda>t. t\<lparr>click_handler := True\<rparr>) (snd (updateTrayMenu e (construct_tray e s))))
      else snd (updateTrayMenu e (construct_tray e s)))"
  by (cases "updateTrayMenu e (construct_tray e s)") (auto simp: createTray_def)

lemma createTray_fst: "fst (createTray e s) = fst (updateTrayMenu e (construct_tray e s))"
  by (cases "updateTrayMenu e (construct_tray e s)") (auto simp: createTray_def split: option.splits)

lemma createTray_frame [simp]:
  "windowStore (snd (createTray e s)) = windowStore s"
  "windows (snd (createTray e s)) = windows s"
  "mainWindow (snd (createTray e s)) = mainWindow s"
  "tray (snd (createTray e s)) = Some (length (trays s))"
  "isQuitting (snd (createTray e s)) = isQuitting s"
  "ready (snd (createTray e s)) = ready s"
  "dialogs (snd (createTray e s)) = dialogs s"
  "quit_called (snd (createTray e s)) = quit_called s"
  "exit_called (snd (createTray e s)) = exit_called s"
  "length (trays (snd (createTray e s))) = Suc (length (trays s))"
  by (simp_all add: createTray_snd)

lemma createTray_icon:
  "tray_icon (snd (createTray e s)) = Some (resize 16 16 (createFromPath (chosen_icon_path e)))"
proof -
  have "tray_icon (construct_tray e s) = Some (resize 16 16 (createFromPath (chosen_icon_path e)))"
    by (simp add: tray_icon_def deref_def new_Tray_def construct_tray_def)
  then show ?thesis
    by (simp add: createTray_snd tray_icon_with_tray)
qed

lemma createWindow_frame [simp]:
  "windowStore (createWindow e s) = windowStore s"
  "trays (createWindow e s) = trays s"
  "tray (createWindow e s) = tray s"
  "isQuitting (createWindow e s) = isQuitting s"
  "ready (createWindow e s) = ready s"
  "console (createWindow e s) = console s"
  "quit_called (createWindow e s) = quit_called s"
  "uncaught (createWindow e s) = uncaught s"
  by (simp_all add: createWindow_def Let_def app_exit_def showMessageBoxSync_def)

lemma handled_frame [simp]:
  "windowStore (handled r) = windowStore (snd r)"
  "windows (handled r) = windows (snd r)"
  "trays (handled r) = trays (snd r)"
  "mainWindow (handled r) = mainWindow (snd r)"
  "tray (handled r) = tray (snd r)"
  "isQuitting (handled r) = isQuitting (snd r)"
  "ready (handled r) = ready (snd r)"
  "dialogs (handled r) = dialogs (snd r)"
  "console (handled r) = console (snd r)"
  "quit_called (handled r) = quit_called (snd r)"
  "exit_called (handled r) = exit_called (snd r)"
  by (simp_all add: handled_def split: prod.splits option.splits)

lemma on_close_hidden: "\<not> isQuitting s \<Longrightarrow> on_close s = (True, with_mainWindow hide_window s)"
  by (simp add: on_close_def)

lemma on_close_saved:
  "isQuitting s \<Longrightarrow> mainWindow s = Some i \<Longrightarrow> i < length (windows s) \<Longrightarrow>
   on_close s = (False, s\<lparr>windowStore := saved_geometry (bounds (windows s ! i))\<rparr>)"
  by (simp add: on_close_def getBounds_def deref_def set_dimensions_def set_position_def
      saved_geometry_def Let_def)

lemma on_close_frame [simp]:
  "trays (snd (on_close s)) = trays s"
  "tray (snd (on_close s)) = tray s"
  "mainWindow (snd (on_close s)) = mainWindow s"
  "isQuitting (snd (on_close s)) = isQuitting s"
  "length (windows (snd (on_close s))) = length (windows s)"
  by (simp_all add: on_close_def Let_def)

lemma on_close_store: "\<not> isQuitting s \<Longrightarrow> windowStore (snd (on_close s)) = windowStore s"
  by (simp add: on_close_hidden)

lemma close_event_snd:
  "close_event i s =
     (if i < length (windows s) \<and> \<not> destroyed (windows s ! i) then
        (if fst (on_close s) then snd (on_close s)
         else (snd (on_close s))\<lparr>windows :=
                update_at i (\<lambda>w. w\<lparr>destroyed := True\<rparr>) (windows (snd (on_close s)))\<rparr>)
      else s)"
  by (cases "on_close s") (auto simp: close_event_def split: bool.splits)

lemma close_event_frame [simp]:
  "trays (close_event i s) = trays s"
  "tray (close_event i s) = tray s"
  "mainWindow (close_event i s) = mainWindow s"
  "isQuitting (close_event i s) = isQuitting s"
  by (simp_all add: close_event_snd)

lemma close_event_store: "\<not> isQuitting s \<Longrightarrow> windowStore (close_event i s) = windowStore s"
  by (simp add: close_event_snd on_close_store)

lemma run_click_frame [simp]:
  "windowStore (run_click c s) = windowStore s"
  "trays (run_click c s) = trays s"
  "tray (run_click c s) = tray s"
  by (simp_all add: run_click_def app_quit_def split: click_action.splits)

lemma run_click_isQuitting: "c \<noteq> QuitApp \<Longrightarrow> isQuitting (run_click c s) = isQuitting s"
  by (cases c) (simp_all add: run_click_def)

lemma tray_click_frame [simp]:
  "windowStore (tray_click s) = windowStore s"
  "trays (tray_click s) = trays s"
  "tray (tray_click s) = tray s"
  "isQuitting (tray_click s) = isQuitting s"
  by (simp_all add: tray_click_def)

lemma dispatch_windowStore:
  "windowStore (dispatch e ev s) \<noteq> windowStore s \<Longrightarrow> (\<exists>j. ev = WindowClose j) \<and> isQuitting s"
  using close_event_store [of s]
  by (cases ev) (auto simp: app_quit_def split: option.splits if_splits)

lemma dispatch_isQuitting:
  "isQuitting (dispatch e ev s) \<Longrightarrow> \<not> isQuitting s \<Longrightarrow> ev = MenuClick QuitApp"
  using run_click_isQuitting [of _ s]
  by (cases ev) (auto simp: app_quit_def split: option.splits if_splits)

lemma dispatch_tray_frame:
  "ev \<noteq> IpcInitTray \<Longrightarrow>
   tray (dispatch e ev s) = tray s \<and> length (trays (dispatch e ev s)) = length (trays s)"
  by (cases ev) (auto simp: app_quit_def split: option.splits if_splits)

lemma run_without_quit:
  "\<not> isQuitting s \<Longrightarrow> \<forall>e. (e, MenuClick QuitApp) \<notin> set evs \<Longrightarrow>
   windowStore (run s evs) = windowStore s \<and> \<not> isQuitting (run s evs)"
proof (induction evs arbitrary: s)
  case Nil
  then show ?case by simp
next
  case (Cons p evs)
  obtain e ev where p: "p = (e, ev)" by (cases p)
  with Cons.prems(2) have ev: "ev \<noteq> MenuClick QuitApp" by auto
  have q: "\<not> isQuitting (dispatch e ev s)"
    using dispatch_isQuitting [of e ev s] ev Cons.prems(1) by blast
  have st: "windowStore (dispatch e ev s) = windowStore s"
    using dispatch_windowStore [of e ev s] Cons.prems(1) by blast
  from Cons.prems(2) have rest: "\<forall>e. (e, MenuClick QuitApp) \<notin> set evs" by auto
  from Cons.IH [OF q rest] st p show ?case by simp
qed

lemma moved_state_eq:
  "moved_state =
     \<lparr> windowStore = empty_store,
       windows = [\<lparr> options = stored_options empty_store,
                    bounds = \<lparr>r_width = 1400, r_height = 900, r_x = 10, r_y = 20\<rparr>,
                    visible = True, focused = False, destroyed = False, sent = [],
                    remote_enabled = True,
                    loaded = Some (LoadFile [''opt'', ''winboat'', ''app'', ''renderer'', ''index.html'']) \<rparr>],
       trays = [], mainWindow = Some 0, tray = None, isQuitting = False, ready = True,
       dialogs = [], console = [], quit_called = False, exit_called = False, uncaught = [] \<rparr>"
  by (simp add: moved_state_def init_state_def createWindow_def Let_def with_mainWindow_def
      update_at_def new_BrowserWindow_def load_renderer_def home_env_def join_def)

lemma quitting_facts:
  "mainWindow (run (init_state empty_store) quitting_trace) = Some 0"
  "length (windows (run (init_state empty_store) quitting_trace)) = 1"
  "\<not> destroyed (windows (run (init_state empty_store) quitting_trace) ! 0)"
  "isQuitting (run (init_state empty_store) quitting_trace)"
  "bounds (windows (run (init_state empty_store) quitting_trace) ! 0) =
     \<lparr>r_width = 1400, r_height = 900, r_x = 10, r_y = 20\<rparr>"
  "windowStore (run (init_state empty_store) quitting_trace) = empty_store"
  by code_simp+

lemma saved_geometry_read_back:
  "get_dimensions_width (saved_geometry b) = r_width b"
  "get_dimensions_height (saved_geometry b) = r_height b"
  "get_position_x (saved_geometry b) = r_x b"
  "get_position_y (saved_geometry b) = r_y b"
  by (simp_all add: saved_geometry_def get_dimensions_width_def get_dimensions_height_def
      get_position_x_def get_position_y_def)

lemma close_event_saved:
  assumes "mainWindow s = Some i" and "i < length (windows s)"
    and "\<not> destroyed (windows s ! i)" and "isQuitting s"
  shows "windowStore (close_event i s) = saved_geometry (bounds (windows s ! i))"
  using assms by (simp add: close_event_def on_close_saved)

lemma close_event_hidden:
  assumes "mainWindow s = Some i" and "i < length (windows s)"
    and "\<not> destroyed (windows s ! i)" and "\<not> isQuitting s"
  shows "close_event i s = s\<lparr>windows := (windows s)[i := (windows s ! i)\<lparr>visible := False\<rparr>]\<rparr>"
  using assms
  by (simp add: close_event_def on_close_hidden with_mainWindow_def update_at_def hide_window_def)

lemma tray_inv_dispatch: "tray_inv s \<Longrightarrow> tray_inv (dispatch e ev s)"
proof (cases "ev = IpcInitTray")
  case True
  assume "tray_inv s"
  with True show ?thesis by (auto simp: tray_inv_def)
next
  case False
  assume "tray_inv s"
  with dispatch_tray_frame [OF False, of e s] show ?thesis by (simp add: tray_inv_def)
qed

lemma tray_inv_run: "tray_inv s \<Longrightarrow> tray_inv (run s evs)"
  by (induction evs arbitrary: s) (auto simp: tray_inv_dispatch)

subsection \<open>C1: the geometry is read at startup and written at a quitting close\<close>

text \<open>
  C1, for a close after Quit. \<open>createWindow\<close> passes the four stored numbers to the window it
  constructs. For every close event on the main window that happens while \<open>isQuitting\<close>
  is true, after the close handler has run the stored dimensions and position are the
  window's bounds at the time of the close, and reading them back gives those four
  numbers.
\<close>

theorem C1_saved_when_quitting:
  assumes "mainWindow s = Some i" and "i < length (windows s)"
    and "\<not> destroyed (windows s ! i)" and "isQuitting s"
  shows "windowStore (dispatch e (WindowClose i) s) = saved_geometry (bounds (windows s ! i)) \<and>
         get_dimensions_width (windowStore (dispatch e (WindowClose i) s)) = r_width (bounds (windows s ! i)) \<and>
         get_dimensions_height (windowStore (dispatch e (WindowClose i) s)) = r_height (bounds (windows s ! i)) \<and>
         get_position_x (windowStore (dispatch e (WindowClose i) s)) = r_x (bounds (windows s ! i)) \<and>
         get_position_y (windowStore (dispatch e (WindowClose i) s)) = r_y (bounds (windows s ! i)) \<and>
         map_option (\<lambda>w. (opt_width (options w), opt_height (options w), opt_x (options w), opt_y (options w)))
           (main_window (createWindow e0 s0)) =
           Some (get_dimensions_width (windowStore s0), get_dimensions_height (windowStore s0),
                 get_position_x (windowStore s0), get_position_y (windowStore s0))"
  using close_event_saved [OF assms]
  by (simp add: saved_geometry_read_back main_window_createWindow load_renderer_def
      new_BrowserWindow_def stored_options_def)

theorem C1_witness:
  "isQuitting (run (init_state empty_store) quitting_trace) \<and>
   windowStore (dispatch home_env (WindowClose 0) (run (init_state empty_store) quitting_trace)) =
     \<lparr> dimensions = Some \<lparr>width = Some 1400, height = Some 900\<rparr>,
       position = Some \<lparr>pos_x = Some 10, pos_y = Some 20\<rparr> \<rparr>"
proof -
  have a: "mainWindow (run (init_state empty_store) quitting_trace) = Some 0"
    "0 < length (windows (run (init_state empty_store) quitting_trace))"
    "\<not> destroyed (windows (run (init_state empty_store) quitting_trace) ! 0)"
    "isQuitting (run (init_state empty_store) quitting_trace)"
    using quitting_facts by simp_all
  from C1_saved_when_quitting [OF a, of home_env] a(4) quitting_facts(5)
  show ?thesis by (simp add: saved_geometry_def)
qed

text \<open>
  The claim without the condition fails: a window that was moved to 1400 by 900 at
  (10, 20) and is closed before Quit was chosen leaves the store as it was, empty.
\<close>

theorem C1_counterexample:
  "mainWindow moved_state = Some 0 \<and> \<not> isQuitting moved_state \<and>
   map_option bounds (main_window moved_state) =
     Some \<lparr>r_width = 1400, r_height = 900, r_x = 10, r_y = 20\<rparr> \<and>
   windowStore (dispatch home_env (WindowClose 0) moved_state) = empty_store \<and>
   windowStore (dispatch home_env (WindowClose 0) moved_state) \<noteq>
     saved_geometry \<lparr>r_width = 1400, r_height = 900, r_x = 10, r_y = 20\<rparr> \<and>
   get_dimensions_width (windowStore (dispatch home_env (WindowClose 0) moved_state)) = 1280"
  by (simp add: moved_state_eq main_window_def deref_def close_event_def on_close_def
      with_mainWindow_def saved_geometry_def empty_store_def get_dimensions_width_def
      WINDOW_MIN_WIDTH_def)

subsection \<open>C2: the Recent Apps submenu\<close>

text \<open>
  C2, for a non-empty list. Let the tray exist. When the config file parses to a value whose \<open>recentApps\<close> member is
  a non-empty list, each entry of which has a \<open>name\<close> member, the Recent Apps submenu
  of the tray menu is the list of the first \<open>min 10 (length apps)\<close> entries in order,
  each labelled with its \<open>name\<close> member and launching the app of that name.
\<close>

theorem C2_first_ten:
  assumes "tray s = Some t" and "t < length (trays s)"
    and "existsSync e (CONFIG_PATH e)" and "config_read e = ParsesTo cfg"
    and "get_prop cfg ''recentApps'' = Inr (Some (JArray apps))"
    and "apps \<noteq> []"
    and "\<forall>a\<in>set apps. \<exists>n. get_prop a ''name'' = Inr (Some n)"
  shows "fst (updateTrayMenu e s) = None \<and>
         recent_submenu (snd (updateTrayMenu e s)) = Some (map launch_entry (take 10 apps)) \<and>
         length (map launch_entry (take 10 apps)) = min 10 (length apps) \<and>
         (\<forall>a\<in>set apps. get_prop a ''name'' = Inr (label (launch_entry a)) \<and>
                        label (launch_entry a) \<noteq> None)"
proof -
  have r: "read_recentApps e = Inr (JArray apps)"
    using assms(3,4,5) by (simp add: read_recentApps_cases or_empty_def)
  have "JNull \<notin> set apps"
    using assms(7) by auto
  then have n: "JNull \<notin> set (take 10 apps)"
    by (auto dest: in_set_takeD)
  have nonempty: "0 < length (map launch_entry (take 10 apps))"
    using assms(6) by (cases apps) simp_all
  have labels: "\<forall>a\<in>set apps. get_prop a ''name'' = Inr (label (launch_entry a)) \<and>
                        label (launch_entry a) \<noteq> None"
    using assms(7) by (auto simp: launch_entry_def app_name_def)
  from tray_menu_built(1,2) [OF assms(1,2) r n] nonempty labels
  show ?thesis by (simp add: recent_submenu_template min.commute)
qed

theorem C2_witness:
  "recent_submenu
     (snd (updateTrayMenu
        (home_env\<lparr>config_read := ParsesTo (JObject [(''recentApps'',
           JArray [JObject [(''name'', JString ''Notepad'')], JObject [(''name'', JString ''Paint'')]])])\<rparr>)
        fresh_tray_state)) =
     Some [MenuItem (Some (JString ''Notepad'')) None None
             (Some (LaunchAppByName (Some (JString ''Notepad'')))) None,
           MenuItem (Some (JString ''Paint'')) None None
             (Some (LaunchAppByName (Some (JString ''Paint'')))) None]"
proof -
  have a: "tray fresh_tray_state = Some 0" "0 < length (trays fresh_tray_state)"
    by (simp_all add: fresh_tray_state_def construct_tray_def init_state_def)
  from C2_first_ten [OF a, of
      "home_env\<lparr>config_read := ParsesTo (JObject [(''recentApps'',
           JArray [JObject [(''name'', JString ''Notepad'')], JObject [(''name'', JString ''Paint'')]])])\<rparr>"
      "JObject [(''recentApps'',
           JArray [JObject [(''name'', JString ''Notepad'')], JObject [(''name'', JString ''Paint'')]])]"
      "[JObject [(''name'', JString ''Notepad'')], JObject [(''name'', JString ''Paint'')]]"]
  show ?thesis
    by (simp add: home_env_def existsSync_def CONFIG_PATH_def join_def launch_entry_def app_name_def)
qed

text \<open>
  For the empty list the claim as stated fails: the submenu is not the empty list of the
  first zero entries but the one placeholder entry.
\<close>

theorem C2_counterexample:
  "recent_submenu
     (snd (updateTrayMenu
        (home_env\<lparr>config_read := ParsesTo (JObject [(''recentApps'', JArray [])])\<rparr>)
        fresh_tray_state)) =
     Some [MenuItem (Some (JString ''No recent apps'')) (Some False) None None None] \<and>
   recent_submenu
     (snd (updateTrayMenu
        (home_env\<lparr>config_read := ParsesTo (JObject [(''recentApps'', JArray [])])\<rparr>)
        fresh_tray_state)) \<noteq>
     Some (map launch_entry (take 10 []))"
proof -
  have a: "tray fresh_tray_state = Some 0" "0 < length (trays fresh_tray_state)"
    by (simp_all add: fresh_tray_state_def construct_tray_def init_state_def)
  have r: "read_recentApps (home_env\<lparr>config_read := ParsesTo (JObject [(''recentApps'', JArray [])])\<rparr>)
             = Inr (JArray [])"
    by (simp add: read_recentApps_cases or_empty_def)
  have "JNull \<notin> set (take 10 ([]::json list))" by simp
  from tray_menu_built(2) [OF a r this]
  show ?thesis by (simp add: recent_submenu_template no_recent_apps_def)
qed

subsection \<open>C3: createTray and the icon\<close>

text \<open>
  C3, as \<open>createTray\<close> has it. Whether or not an icon file is present, \<open>createTray\<close> shows no
  dialog and calls neither \<open>app.exit()\<close> nor \<open>app.quit()\<close>: it constructs one tray and
  assigns it to \<open>tray\<close>. The tray's image is the one made from the chosen path, resized
  to 16 by 16: the SVG path when there is no PNG, the PNG path when there is one.
\<close>

theorem C3_no_dialog_no_exit:
  "dialogs (snd (createTray e s)) = dialogs s \<and>
   exit_called (snd (createTray e s)) = exit_called s \<and>
   quit_called (snd (createTray e s)) = quit_called s \<and>
   tray (snd (createTray e s)) = Some (length (trays s)) \<and>
   length (trays (snd (createTray e s))) = Suc (length (trays s)) \<and>
   (\<not> existsSync e (icon_path e ''winboat_logo.png'') \<longrightarrow>
      tray_icon (snd (createTray e s)) =
        Some \<lparr>image_path = icon_path e ''winboat_logo.svg'', image_size = Some (16, 16)\<rparr>) \<and>
   (existsSync e (icon_path e ''winboat_logo.png'') \<longrightarrow>
      tray_icon (snd (createTray e s)) =
        Some \<lparr>image_path = icon_path e ''winboat_logo.png'', image_size = Some (16, 16)\<rparr>)"
  by (simp add: createTray_icon resize_def createFromPath_def chosen_icon_path_def)

theorem C3_witness:
  "\<not> existsSync home_env (icon_path home_env ''winboat_logo.png'') \<and>
   tray_icon (snd (createTray home_env (init_state empty_store))) =
     Some \<lparr>image_path = [''opt'', ''winboat'', ''app'', ''icons'', ''winboat_logo.svg''],
            image_size = Some (16, 16)\<rparr> \<and>
   dialogs (snd (createTray home_env (init_state empty_store))) = [] \<and>
   existsSync (home_env\<lparr>files := [[''opt'', ''winboat'', ''app'', ''icons'', ''winboat_logo.png'']]\<rparr>)
     (icon_path (home_env\<lparr>files := [[''opt'', ''winboat'', ''app'', ''icons'', ''winboat_logo.png'']]\<rparr>)
        ''winboat_logo.png'') \<and>
   tray_icon (snd (createTray
       (home_env\<lparr>files := [[''opt'', ''winboat'', ''app'', ''icons'', ''winboat_logo.png'']]\<rparr>)
       (init_state empty_store))) =
     Some \<lparr>image_path = [''opt'', ''winboat'', ''app'', ''icons'', ''winboat_logo.png''],
            image_size = Some (16, 16)\<rparr>"
  using C3_no_dialog_no_exit [of home_env "init_state empty_store"]
    C3_no_dialog_no_exit
      [of "home_env\<lparr>files := [[''opt'', ''winboat'', ''app'', ''icons'', ''winboat_logo.png'']]\<rparr>"
          "init_state empty_store"]
  by (simp add: home_env_def existsSync_def icon_path_def join_def init_state_def)

text \<open>
  With neither icon file present, tray creation shows no dialog and the process is not
  asked to exit.
\<close>

theorem C3_counterexample:
  "\<not> existsSync home_env (icon_path home_env ''winboat_logo.png'') \<and>
   \<not> existsSync home_env (icon_path home_env ''winboat_logo.svg'') \<and>
   dialogs (snd (createTray home_env (init_state empty_store))) = [] \<and>
   \<not> exit_called (snd (createTray home_env (init_state empty_store))) \<and>
   \<not> quit_called (snd (createTray home_env (init_state empty_store)))"
  by (simp add: home_env_def existsSync_def icon_path_def join_def init_state_def)

subsection \<open>C4: a second instance\<close>

text \<open>
  C4. The claim is that a process which does not get the single-instance lock shows an
  error dialog and exits without creating a window. Evaluated for such a process starting
  up: the dialog is shown and \<open>app.exit()\<close> is called, and then the window is
  constructed and assigned to \<open>mainWindow\<close> all the same.
\<close>

theorem C4_window_after_exit:
  "dialogs (createWindow (home_env\<lparr>lock := False\<rparr>) (init_state empty_store)) = [second_instance_box] \<and>
   exit_called (createWindow (home_env\<lparr>lock := False\<rparr>) (init_state empty_store)) \<and>
   mainWindow (createWindow (home_env\<lparr>lock := False\<rparr>) (init_state empty_store)) = Some 0 \<and>
   length (windows (createWindow (home_env\<lparr>lock := False\<rparr>) (init_state empty_store))) = 1 \<and>
   map_option destroyed (main_window (createWindow (home_env\<lparr>lock := False\<rparr>) (init_state empty_store)))
     = Some False"
  by (simp add: main_window_createWindow load_renderer_def new_BrowserWindow_def)
     (simp add: createWindow_def Let_def app_exit_def showMessageBoxSync_def init_state_def)

subsection \<open>C5: which failures updateTrayMenu contains\<close>

text \<open>
  C5, for the contents lines 78-84 accept. Let the tray exist. When the config file is missing, cannot be read or
  does not parse, or parses to \<open>null\<close>, or parses to a value whose \<open>recentApps\<close> is
  absent, falsy or a list with no \<open>null\<close> among its first ten entries, no error leaves
  \<open>updateTrayMenu\<close> and the tray's menu is set to the complete template. When reading,
  parsing or the member access fails, the failure is logged with \<open>console.error\<close> and
  the menu is the template for the empty list. (\<open>updateTrayMenu_rethrows\<close> covers the
  contents left out: for them a TypeError leaves the function and the state is unchanged.)
\<close>

theorem C5_failures_caught:
  assumes "tray s = Some t" and "t < length (trays s)"
    and "\<not> existsSync e (CONFIG_PATH e) \<or> config_read e = ReadFails \<or> config_read e = ParseFails \<or>
         config_read e = ParsesTo JNull \<or>
         (\<exists>cfg v apps. config_read e = ParsesTo cfg \<and> get_prop cfg ''recentApps'' = Inr v \<and>
            or_empty v = JArray apps \<and> JNull \<notin> set (take 10 apps))"
  shows "fst (updateTrayMenu e s) = None \<and>
         (\<exists>recent. tray_menu (snd (updateTrayMenu e s)) = Some (menu_template recent)) \<and>
         (existsSync e (CONFIG_PATH e) \<and>
          (config_read e = ReadFails \<or> config_read e = ParseFails \<or> config_read e = ParsesTo JNull) \<longrightarrow>
            (\<exists>err. console (snd (updateTrayMenu e s)) =
                     console s @ [ConsoleError ''Failed to read config for tray'' err]) \<and>
            tray_menu (snd (updateTrayMenu e s)) = Some (menu_template []))"
proof (cases "read_recentApps e")
  case (Inl err)
  from tray_menu_caught [OF assms(1,2) Inl]
  show ?thesis by auto
next
  case (Inr v)
  then have nofail: "\<not> (existsSync e (CONFIG_PATH e) \<and>
          (config_read e = ReadFails \<or> config_read e = ParseFails \<or> config_read e = ParsesTo JNull))"
    by (auto simp: read_recentApps_cases)
  have "\<exists>apps. v = JArray apps \<and> JNull \<notin> set (take 10 apps)"
    using assms(3) Inr by (auto simp: read_recentApps_cases split: if_splits)
  then obtain apps where v: "v = JArray apps" and n: "JNull \<notin> set (take 10 apps)"
    by blast
  from tray_menu_built(1,2) [OF assms(1,2) Inr [unfolded v] n] nofail
  show ?thesis by blast
qed

theorem C5_witness:
  "fst (updateTrayMenu home_env fresh_tray_state) = None \<and>
   tray_menu (snd (updateTrayMenu home_env fresh_tray_state)) = Some (menu_template []) \<and>
   console (snd (updateTrayMenu home_env fresh_tray_state)) =
     [ConsoleError ''Failed to read config for tray'' SyntaxError]"
proof -
  have a: "tray fresh_tray_state = Some 0" "0 < length (trays fresh_tray_state)"
    by (simp_all add: fresh_tray_state_def construct_tray_def init_state_def)
  have b: "config_read home_env = ParseFails" "existsSync home_env (CONFIG_PATH home_env)"
    by (simp_all add: home_env_def existsSync_def CONFIG_PATH_def join_def)
  have c: "console fresh_tray_state = []"
    by (simp add: fresh_tray_state_def construct_tray_def init_state_def)
  have d: "read_recentApps home_env = Inl SyntaxError"
    using b by (simp add: read_recentApps_cases)
  from C5_failures_caught [OF a, of home_env] b c tray_menu_caught(3) [OF a d]
  show ?thesis by simp
qed

text \<open>
  A config file that parses to an object whose \<open>recentApps\<close> is the number 5: the
  TypeError of line 78 leaves \<open>updateTrayMenu\<close> and the tray has no menu.
\<close>

theorem C5_counterexample:
  "fst (updateTrayMenu
          (home_env\<lparr>config_read := ParsesTo (JObject [(''recentApps'', JNumber 5)])\<rparr>)
          fresh_tray_state) = Some TypeError \<and>
   tray_menu (snd (updateTrayMenu
          (home_env\<lparr>config_read := ParsesTo (JObject [(''recentApps'', JNumber 5)])\<rparr>)
          fresh_tray_state)) = None"
proof -
  have a: "tray fresh_tray_state = Some 0"
    by (simp add: fresh_tray_state_def construct_tray_def init_state_def)
  have r: "read_recentApps (home_env\<lparr>config_read := ParsesTo (JObject [(''recentApps'', JNumber 5)])\<rparr>)
             = Inr (JNumber 5)"
    by (simp add: read_recentApps_cases or_empty_def home_env_def existsSync_def CONFIG_PATH_def join_def)
  have m: "recentAppsMenu (JNumber 5) = Inl TypeError" by simp
  from updateTrayMenu_thrown [OF a r m]
  show ?thesis by (simp add: tray_menu_def deref_def fresh_tray_state_def construct_tray_def new_Tray_def init_state_def)
qed

subsection \<open>C6: the default geometry\<close>

text \<open>
  C6. When nothing is saved in the settings store, the window is constructed with width
  1280, height 800, x = 0 and y = 0, and the two stored defaults are the constants
  \<open>WINDOW_MIN_WIDTH\<close> and \<open>WINDOW_MIN_HEIGHT\<close>.
\<close>

theorem C6_defaults:
  assumes "windowStore s = empty_store"
  shows "map_option options (main_window (createWindow e s)) =
           Some \<lparr> minWidth = 1280, minHeight = 800, opt_width = 1280, opt_height = 800,
                  opt_x = 0, opt_y = 0, transparent = False, frame = False,
                  nodeIntegration = True, contextIsolation = False \<rparr> \<and>
         get_dimensions_width empty_store = WINDOW_MIN_WIDTH \<and>
         get_dimensions_height empty_store = WINDOW_MIN_HEIGHT"
  using assms
  by (simp add: main_window_createWindow load_renderer_def new_BrowserWindow_def stored_options_def
      get_dimensions_width_def get_dimensions_height_def get_position_x_def get_position_y_def
      empty_store_def WINDOW_MIN_WIDTH_def WINDOW_MIN_HEIGHT_def)

theorem C6_witness:
  "windowStore (init_state empty_store) = empty_store \<and>
   map_option options (main_window (createWindow home_env (init_state empty_store))) =
     Some \<lparr> minWidth = 1280, minHeight = 800, opt_width = 1280, opt_height = 800,
            opt_x = 0, opt_y = 0, transparent = False, frame = False,
            nodeIntegration = True, contextIsolation = False \<rparr>"
proof -
  have h: "windowStore (init_state empty_store) = empty_store" by (simp add: init_state_def)
  from C6_defaults [OF h, of home_env] h show ?thesis by simp
qed

subsection \<open>The header callback\<close>

text \<open>
  C7. For every intercepted response, the callback's headers hold under
  Content-Security-Policy the five directives of lines 220-224 (script-src, worker-src,
  media-src, font-src and style-src, in this order and with these sources), and every
  header of another name is what the response had (none, when the response had no headers).
\<close>

theorem C7_headers_only_csp_changed:
  "onHeadersReceived hs ''Content-Security-Policy'' =
     Some [ ''script-src 'self' 'unsafe-eval' 'wasm-unsafe-eval' 'unsafe-inline'' @ [CHR 0x27],
            ''worker-src 'self' blob:'',
            ''media-src 'self' blob:'',
            ''font-src 'self' 'unsafe-inline' https://fonts.gstatic.com;'',
            ''style-src 'self' 'unsafe-inline' https://fonts.googleapis.com'' ] \<and>
   onHeadersReceived hs ''Content-Security-Policy'' = Some CSP \<and> length CSP = 5 \<and>
   (\<forall>k. k \<noteq> ''Content-Security-Policy'' \<longrightarrow>
      onHeadersReceived hs k = (case hs of None \<Rightarrow> None | Some h \<Rightarrow> h k))"
  by (simp add: onHeadersReceived_def CSP_def split: option.splits)

theorem C7_headers_witness:
  "onHeadersReceived
     (Some [''Server'' \<mapsto> [''nginx''], ''Content-Security-Policy'' \<mapsto> [''default-src *'']])
     ''Server'' = Some [''nginx''] \<and>
   onHeadersReceived
     (Some [''Server'' \<mapsto> [''nginx''], ''Content-Security-Policy'' \<mapsto> [''default-src *'']])
     ''Content-Security-Policy'' =
     Some [ ''script-src 'self' 'unsafe-eval' 'wasm-unsafe-eval' 'unsafe-inline'' @ [CHR 0x27],
            ''worker-src 'self' blob:'',
            ''media-src 'self' blob:'',
            ''font-src 'self' 'unsafe-inline' https://fonts.gstatic.com;'',
            ''style-src 'self' 'unsafe-inline' https://fonts.googleapis.com'' ]"
  using C7_headers_only_csp_changed
    [of "Some [''Server'' \<mapsto> [''nginx''], ''Content-Security-Policy'' \<mapsto> [''default-src *'']]"]
  by simp

subsection \<open>C8: a close before Quit only hides the window\<close>

text \<open>
  C8. For every close event on the main window while \<open>isQuitting\<close> is false, the
  handler prevents the default, the window is hidden and not destroyed, and nothing else
  in the state changes, the settings store included. In every run from the initial
  state the store changes only in a close event that finds \<open>isQuitting\<close> true, after
  a click on Quit; and only a click on Quit makes \<open>isQuitting\<close> true.
\<close>

theorem C8_close_hides_unless_quitting:
  "(mainWindow s = Some i \<and> i < length (windows s) \<and> \<not> destroyed (windows s ! i) \<and> \<not> isQuitting s \<longrightarrow>
      fst (on_close s) \<and>
      dispatch e (WindowClose i) s =
        s\<lparr>windows := (windows s)[i := (windows s ! i)\<lparr>visible := False\<rparr>]\<rparr> \<and>
      windowStore (dispatch e (WindowClose i) s) = windowStore s \<and>
      map_option visible (main_window (dispatch e (WindowClose i) s)) = Some False \<and>
      map_option destroyed (main_window (dispatch e (WindowClose i) s)) = Some False) \<and>
   (windowStore (dispatch e ev (run (init_state st) pre)) \<noteq> windowStore (run (init_state st) pre) \<longrightarrow>
      (\<exists>j. ev = WindowClose j) \<and> isQuitting (run (init_state st) pre) \<and>
      (\<exists>e'. (e', MenuClick QuitApp) \<in> set pre)) \<and>
   (isQuitting (dispatch e ev s) \<and> \<not> isQuitting s \<longrightarrow> ev = MenuClick QuitApp)"
proof (intro conjI impI)
  assume h: "mainWindow s = Some i \<and> i < length (windows s) \<and> \<not> destroyed (windows s ! i) \<and> \<not> isQuitting s"
  then show "fst (on_close s)" by (simp add: on_close_hidden)
  from h have eq: "dispatch e (WindowClose i) s =
        s\<lparr>windows := (windows s)[i := (windows s ! i)\<lparr>visible := False\<rparr>]\<rparr>"
    by (simp add: close_event_hidden)
  then show "dispatch e (WindowClose i) s =
        s\<lparr>windows := (windows s)[i := (windows s ! i)\<lparr>visible := False\<rparr>]\<rparr>" .
  from eq show "windowStore (dispatch e (WindowClose i) s) = windowStore s" by simp
  from eq h show "map_option visible (main_window (dispatch e (WindowClose i) s)) = Some False"
    by (simp add: main_window_def deref_def)
  from eq h show "map_option destroyed (main_window (dispatch e (WindowClose i) s)) = Some False"
    by (simp add: main_window_def deref_def)
next
  assume ch: "windowStore (dispatch e ev (run (init_state st) pre)) \<noteq> windowStore (run (init_state st) pre)"
  from dispatch_windowStore [OF ch]
  show "\<exists>j. ev = WindowClose j" and q: "isQuitting (run (init_state st) pre)" by simp_all
  have "\<not> isQuitting (init_state st)" by (simp add: init_state_def)
  from run_without_quit [OF this, of pre] q
  show "\<exists>e'. (e', MenuClick QuitApp) \<in> set pre" by blast
next
  assume "isQuitting (dispatch e ev s) \<and> \<not> isQuitting s"
  then show "ev = MenuClick QuitApp" using dispatch_isQuitting by blast
qed

theorem C8_witness:
  "\<not> isQuitting moved_state \<and>
   windowStore (dispatch home_env (WindowClose 0) moved_state) = windowStore moved_state \<and>
   map_option visible (main_window (dispatch home_env (WindowClose 0) moved_state)) = Some False \<and>
   map_option destroyed (main_window (dispatch home_env (WindowClose 0) moved_state)) = Some False \<and>
   windowStore (dispatch home_env (WindowClose 0) (run (init_state empty_store) quitting_trace)) \<noteq>
     windowStore (run (init_state empty_store) quitting_trace) \<and>
   (home_env, MenuClick QuitApp) \<in> set quitting_trace"
proof -
  have a: "mainWindow moved_state = Some 0 \<and> 0 < length (windows moved_state) \<and>
           \<not> destroyed (windows moved_state ! 0) \<and> \<not> isQuitting moved_state"
    by (simp add: moved_state_eq)
  have b: "windowStore (dispatch home_env (WindowClose 0) (run (init_state empty_store) quitting_trace)) \<noteq>
     windowStore (run (init_state empty_store) quitting_trace)"
    by code_simp
  have c: "(home_env, MenuClick QuitApp) \<in> set quitting_trace"
    by (simp add: quitting_trace_def)
  from C8_close_hides_unless_quitting [of moved_state 0 home_env "WindowClose 0" empty_store quitting_trace]
    a b c
  show ?thesis by blast
qed

subsection \<open>C9: at most one tray\<close>

text \<open>
  C9. In every run from the initial state at most one tray has been constructed. After
  an "init-tray" message \<open>tray\<close> is not null; an "init-tray" message that finds it not
  null changes nothing, one that finds it null constructs exactly one tray, and no other
  event constructs a tray or assigns \<open>tray\<close>.
\<close>

theorem C9_at_most_one_tray:
  "length (trays (run (init_state st) evs)) \<le> 1 \<and>
   tray (dispatch e IpcInitTray s) \<noteq> None \<and>
   (tray s \<noteq> None \<longrightarrow> dispatch e IpcInitTray s = s) \<and>
   (tray s = None \<longrightarrow> length (trays (dispatch e IpcInitTray s)) = Suc (length (trays s))) \<and>
   (ev \<noteq> IpcInitTray \<longrightarrow>
      length (trays (dispatch e ev s)) = length (trays s) \<and> tray (dispatch e ev s) = tray s)"
proof -
  have "tray_inv (init_state st)" by (simp add: tray_inv_def init_state_def)
  then have "tray_inv (run (init_state st) evs)" by (rule tray_inv_run)
  then have "length (trays (run (init_state st) evs)) \<le> 1" by (auto simp: tray_inv_def)
  moreover have "tray (dispatch e IpcInitTray s) \<noteq> None" by auto
  moreover have "tray s \<noteq> None \<longrightarrow> dispatch e IpcInitTray s = s" by simp
  moreover have "tray s = None \<longrightarrow> length (trays (dispatch e IpcInitTray s)) = Suc (length (trays s))"
    by simp
  moreover have "ev \<noteq> IpcInitTray \<longrightarrow>
      length (trays (dispatch e ev s)) = length (trays s) \<and> tray (dispatch e ev s) = tray s"
    using dispatch_tray_frame by blast
  ultimately show ?thesis by blast
qed

theorem C9_witness:
  "tray (dispatch home_env IpcInitTray (init_state empty_store)) \<noteq> None \<and>
   dispatch home_env IpcInitTray (dispatch home_env IpcInitTray (init_state empty_store)) =
     dispatch home_env IpcInitTray (init_state empty_store) \<and>
   length (trays (run (init_state empty_store)
     [(home_env, IpcInitTray), (home_env, IpcUpdateTray), (home_env, IpcInitTray)])) = 1"
proof -
  have one: "tray (dispatch home_env IpcInitTray (init_state empty_store)) \<noteq> None"
    using C9_at_most_one_tray [of empty_store "[]" home_env "init_state empty_store" AppReady]
    by blast
  have two: "dispatch home_env IpcInitTray (dispatch home_env IpcInitTray (init_state empty_store)) =
     dispatch home_env IpcInitTray (init_state empty_store)"
    using C9_at_most_one_tray [of empty_store "[]" home_env
        "dispatch home_env IpcInitTray (init_state empty_store)" AppReady] one
    by blast
  have "length (trays (run (init_state empty_store)
     [(home_env, IpcInitTray), (home_env, IpcUpdateTray), (home_env, IpcInitTray)])) \<le> 1"
    using C9_at_most_one_tray [of empty_store
        "[(home_env, IpcInitTray), (home_env, IpcUpdateTray), (home_env, IpcInitTray)]"
        home_env "init_state empty_store" AppReady]
    by blast
  moreover have "length (trays (run (init_state empty_store)
     [(home_env, IpcInitTray), (home_env, IpcUpdateTray), (home_env, IpcInitTray)])) \<noteq> 0"
    by code_simp
  ultimately have "length (trays (run (init_state empty_store)
     [(home_env, IpcInitTray), (home_env, IpcUpdateTray), (home_env, IpcInitTray)])) = 1"
    by linarith
  with one two show ?thesis by blast
qed

subsection \<open>C10: the placeholder entry\<close>

text \<open>
  C10. Let the tray exist. When the config file is missing, cannot be read or does not
  parse, or when its \<open>recentApps\<close> list is empty, the Recent Apps submenu is exactly one
  entry, labelled "No recent apps" and disabled.
\<close>

theorem C10_placeholder:
  assumes "tray s = Some t" and "t < length (trays s)"
    and "\<not> existsSync e (CONFIG_PATH e) \<or> config_read e = ReadFails \<or> config_read e = ParseFails \<or>
         (\<exists>cfg. config_read e = ParsesTo cfg \<and> get_prop cfg ''recentApps'' = Inr (Some (JArray [])))"
  shows "fst (updateTrayMenu e s) = None \<and>
         recent_submenu (snd (updateTrayMenu e s)) =
           Some [MenuItem (Some (JString ''No recent apps'')) (Some False) None None None]"
proof -
  have "read_recentApps e = Inr (JArray []) \<or> (\<exists>err. read_recentApps e = Inl err)"
    using assms(3) by (auto simp: read_recentApps_cases or_empty_def)
  then show ?thesis
  proof (elim disjE exE)
    assume r: "read_recentApps e = Inr (JArray [])"
    have "JNull \<notin> set (take 10 ([]::json list))" by simp
    from tray_menu_built(1,2) [OF assms(1,2) r this]
    show ?thesis by (simp add: recent_submenu_template no_recent_apps_def)
  next
    fix err
    assume r: "read_recentApps e = Inl err"
    from tray_menu_caught(1,2) [OF assms(1,2) r]
    show ?thesis by (simp add: recent_submenu_template no_recent_apps_def)
  qed
qed

theorem C10_witness:
  "recent_submenu (snd (updateTrayMenu (home_env\<lparr>config_read := ReadFails\<rparr>) fresh_tray_state)) =
     Some [MenuItem (Some (JString ''No recent apps'')) (Some False) None None None]"
proof -
  have a: "tray fresh_tray_state = Some 0" "0 < length (trays fresh_tray_state)"
    by (simp_all add: fresh_tray_state_def construct_tray_def init_state_def)
  have b: "config_read (home_env\<lparr>config_read := ReadFails\<rparr>) = ReadFails" by simp
  from C10_placeholder [OF a, of "home_env\<lparr>config_read := ReadFails\<rparr>"] b
  show ?thesis by simp
qed

end
